theory Spec2Isabelle
  imports Main "HOL-Library.Sublist" "HOL-Library.AList"
begin

chapter \<open>The model of \<^verbatim>\<open>neptune-gremlin.js\<close>\<close>

section \<open>JavaScript values\<close>

text \<open>
  The module handles untyped data: the arguments of its exported functions and the results
  the Gremlin driver deserialises from JSON. They are modelled by one datatype of JavaScript
  values. Numbers are restricted to the integers (no NaN, no fractions): the module compares
  numbers only with \<^verbatim>\<open>==\<close> against 1 and 1006. A plain object is the list of its own
  enumerable properties in the order \<^verbatim>\<open>for ... in\<close> visits them, read with
  \<^const>\<open>map_of\<close>; the statements below are about the mapping and do not depend on the order
  of the keys. The special key \<^verbatim>\<open>__proto__\<close>, which an assignment treats as the prototype, is
  left out of the model.
\<close>

datatype jsval =
    JUndefined
  | JNull
  | JBool bool
  | JNum int
  | JStr string
  | JArr "jsval list"
  | JObj "(string \<times> jsval) list"

type_synonym properties = "(string \<times> jsval) list"

text \<open>An \<^verbatim>\<open>Error\<close> object: its name, its message and its cause (ES2022), if it wraps one.\<close>

datatype error = JsError (err_name: string) (message: string) (cause: "error option")

abbreviation Error :: "string \<Rightarrow> error" where
  "Error m \<equiv> JsError ''Error'' m None"

abbreviation TypeError :: "string \<Rightarrow> error" where
  "TypeError m \<equiv> JsError ''TypeError'' m None"

text \<open>Truthiness, as \<^verbatim>\<open>!x\<close>, \<^verbatim>\<open>if (x)\<close> and \<^verbatim>\<open>a || b\<close> test it.\<close>

fun truthy :: "jsval \<Rightarrow> bool" where
  "truthy JUndefined = False"
| "truthy JNull = False"
| "truthy (JBool b) = b"
| "truthy (JNum n) = (n \<noteq> 0)"
| "truthy (JStr s) = (s \<noteq> [])"
| "truthy (JArr xs) = True"
| "truthy (JObj kvs) = True"

definition js_or :: "jsval \<Rightarrow> jsval \<Rightarrow> jsval" where
  "js_or a b = (if truthy a then a else b)"

text \<open>
  Reading a property \<^verbatim>\<open>v.k\<close>: on \<^verbatim>\<open>undefined\<close> and \<^verbatim>\<open>null\<close> it throws a TypeError
  (\<open>nullish\<close>, \<open>cannot_read\<close>); on any other value \<open>member\<close> gives the own property
  of an object and \<^verbatim>\<open>undefined\<close> otherwise. The keys this module reads by name
  (\<^verbatim>\<open>id\<close>, \<^verbatim>\<open>label\<close>, \<^verbatim>\<open>focus\<close>, \<^verbatim>\<open>accessKey\<close>, ...) are not inherited from any
  prototype.
\<close>

definition nullish :: "jsval \<Rightarrow> bool" where
  "nullish v = (v = JUndefined \<or> v = JNull)"

definition cannot_read :: "jsval \<Rightarrow> string \<Rightarrow> error" where
  "cannot_read v k =
     TypeError (''Cannot read properties of '' @ (if v = JNull then ''null'' else ''undefined'')
                @ '' (reading '' @ [CHR 0x27] @ k @ [CHR 0x27] @ '')'')"

fun member :: "jsval \<Rightarrow> string \<Rightarrow> jsval" where
  "member (JObj kvs) k = (case map_of kvs k of None \<Rightarrow> JUndefined | Some v \<Rightarrow> v)"
| "member v k = JUndefined"

fun isArray :: "jsval \<Rightarrow> bool" where
  "isArray (JArr xs) = True"
| "isArray v = False"

text \<open>
  \<^verbatim>\<open>a === b\<close>. Primitive values are compared by value. Two objects or arrays are strictly
  equal only when they are the same object; the module applies \<^verbatim>\<open>===\<close> to a value read from
  the list of raw nodes and a value read from the list of raw edges, which are parts of two
  separately deserialised results and so never the same object.
\<close>

fun strict_equals :: "jsval \<Rightarrow> jsval \<Rightarrow> bool" where
  "strict_equals (JArr xs) b = False"
| "strict_equals (JObj kvs) b = False"
| "strict_equals a b = (a = b)"

text \<open>
  \<^verbatim>\<open>k in obj\<close> for a plain object (an object literal or a deserialised JSON object): true
  for the object's own keys and for the names it inherits from \<^verbatim>\<open>Object.prototype\<close>, which
  are the twelve of \<open>object_prototype_keys\<close>.
\<close>

definition object_prototype_keys :: "string list" where
  "object_prototype_keys =
     [''constructor'', ''__defineGetter__'', ''__defineSetter__'', ''hasOwnProperty'',
      ''__lookupGetter__'', ''__lookupSetter__'', ''isPrototypeOf'', ''propertyIsEnumerable'',
      ''toString'', ''valueOf'', ''__proto__'', ''toLocaleString'']"

definition js_in :: "string \<Rightarrow> properties \<Rightarrow> bool" where
  "js_in k obj = (k \<in> fst ` set obj \<or> k \<in> set object_prototype_keys)"

text \<open>
  \<^verbatim>\<open>for (const k in v)\<close> visits the enumerable keys of an object (the inherited names of
  \<^verbatim>\<open>Object.prototype\<close> are not enumerable) and nothing for \<^verbatim>\<open>undefined\<close> and \<^verbatim>\<open>null\<close>. The
  module iterates over objects and over \<^verbatim>\<open>existingProps[0]\<close>, which is an object or
  \<^verbatim>\<open>undefined\<close>; \<open>index0\<close> is \<^verbatim>\<open>xs[0]\<close>, \<^verbatim>\<open>undefined\<close> on the empty array.
\<close>

fun for_in :: "jsval \<Rightarrow> string list" where
  "for_in (JObj kvs) = map fst kvs"
| "for_in v = []"

definition index0 :: "jsval list \<Rightarrow> jsval" where
  "index0 xs = (case xs of [] \<Rightarrow> JUndefined | x # _ \<Rightarrow> x)"

section \<open>Request signing: \<^verbatim>\<open>getHeaders\<close>\<close>

text \<open>
  \<^verbatim>\<open>process.env\<close> maps names to strings; a missing variable reads as \<^verbatim>\<open>undefined\<close>.
\<close>

type_synonym environment = "string \<rightharpoonup> string"

definition getenv :: "environment \<Rightarrow> string \<Rightarrow> jsval" where
  "getenv env k = (case env k of None \<Rightarrow> JUndefined | Some s \<Rightarrow> JStr s)"

text \<open>
  \<^verbatim>\<open>aws4.sign(signOptions, credentials).headers\<close> is a function of its two arguments, computed by
  the external library \<^verbatim>\<open>aws4\<close>. The model keeps the arguments: the headers are the value
  \<open>Aws4_headers\<close> of the options and the credentials they were signed with. The template string
  \<^verbatim>\<open>`${host}:${port}`\<close> is kept as its two parts.
\<close>

record signOptions =
  so_host :: jsval
  so_port :: jsval
  so_region :: jsval
  so_path :: jsval
  so_service :: string

record aws_credentials =
  accessKeyId :: jsval
  secretAccessKey :: jsval
  sessionToken :: jsval

datatype headers = No_headers | Aws4_headers signOptions aws_credentials

text \<open>
  Lines 463-488. The three reads of \<^verbatim>\<open>credentials\<close> for the access key throw exactly when
  \<^verbatim>\<open>credentials\<close> is \<^verbatim>\<open>undefined\<close> or \<^verbatim>\<open>null\<close>, and the first of them is evaluated
  first, so that case is tested once, before the reads.
\<close>

definition getHeaders :: "environment \<Rightarrow> jsval \<Rightarrow> jsval \<Rightarrow> jsval \<Rightarrow> jsval \<Rightarrow> error + headers" where
  "getHeaders env host port credentials canonicalUri =
     (if \<not> truthy host \<or> \<not> truthy port then Inl (Error ''Host and port are required'')
      else if nullish credentials then Inl (cannot_read credentials ''accessKey'')
      else
        let accessKeyId' = js_or (js_or (member credentials ''accessKey'')
                                        (member credentials ''accessKeyId''))
                                 (getenv env ''AWS_ACCESS_KEY_ID'');
            secretAccessKey' = js_or (js_or (member credentials ''secretKey'')
                                            (member credentials ''secretAccessKey''))
                                     (getenv env ''AWS_SECRET_ACCESS_KEY'');
            sessionToken' = js_or (member credentials ''sessionToken'')
                                  (getenv env ''AWS_SESSION_TOKEN'');
            region = js_or (member credentials ''region'') (getenv env ''AWS_DEFAULT_REGION'')
        in if \<not> truthy accessKeyId' \<or> \<not> truthy secretAccessKey'
           then Inl (Error ''Access key and secret key are required'')
           else Inr (Aws4_headers
                      \<lparr>so_host = host, so_port = port, so_region = region,
                       so_path = canonicalUri, so_service = ''neptune-db''\<rparr>
                      \<lparr>accessKeyId = accessKeyId', secretAccessKey = secretAccessKey',
                       sessionToken = sessionToken'\<rparr>))"

section \<open>The connection and the retrying executor\<close>

text \<open>
  The state the class \<^verbatim>\<open>Connection\<close> works on: the fields of the instance (\<open>host\<close>,
  \<open>port\<close>, \<open>useIam\<close>, \<open>connection\<close>), the process environment, the local variable
  \<^verbatim>\<open>g\<close> of \<^verbatim>\<open>query\<close> (\<open>g_handle\<close>: the driver connection the traversal source is bound
  to), and the remote side: \<open>world\<close> is whatever the query function reads and changes (for
  the save and delete operations below, the graph). A driver connection is identified by its
  serial number, \<open>constructed\<close> counts the \<^verbatim>\<open>DriverRemoteConnection\<close> objects made so far,
  and \<open>trace\<close> records what was done in order: connections opened and closed, invocations
  of the query function with the handle they were given, and timer waits in milliseconds.
  The URL and the console output are left out.
\<close>

type_synonym session = nat

datatype event =
    Open session headers
  | Close session
  | Invoke "session option"
  | Wait nat

record 'w state =
  host :: jsval
  port :: jsval
  useIam :: bool
  connection :: "session option"
  process_env :: environment
  constructed :: nat
  g_handle :: "session option"
  world :: 'w
  trace :: "event list"

text \<open>Lines 70-75, the constructor: no driver connection yet.\<close>

definition Connection :: "jsval \<Rightarrow> jsval \<Rightarrow> bool \<Rightarrow> environment \<Rightarrow> 'w \<Rightarrow> 'w state" where
  "Connection h p iam env w =
     \<lparr>host = h, port = p, useIam = iam, connection = None, process_env = env,
      constructed = 0, g_handle = None, world = w, trace = []\<rparr>"


text \<open>
  Lines 80-105. With \<^verbatim>\<open>useIam\<close> the headers are signed, and a failure of \<^verbatim>\<open>getHeaders\<close>
  leaves the instance as it was; otherwise the headers are the empty object.
\<close>

definition connect :: "'w state \<Rightarrow> (error + unit) \<times> 'w state" where
  "connect st =
     (case (if useIam st
            then getHeaders (process_env st) (host st) (port st) (JObj []) (JStr ''/gremlin'')
            else Inr No_headers) of
        Inl e \<Rightarrow> (Inl e, st)
      | Inr hs \<Rightarrow>
          (Inr (), st\<lparr>connection := Some (constructed st),
                      constructed := Suc (constructed st),
                      trace := trace st @ [Open (constructed st) hs]\<rparr>))"

text \<open>
  Lines 125-152, the error filter. It is written as a \<^verbatim>\<open>function\<close> expression, so its
  \<^verbatim>\<open>this\<close> is the receiver of the call and not the \<^verbatim>\<open>this\<close> of \<^verbatim>\<open>query\<close>. The filter is
  therefore a function of its receiver: on the connection instance, \<^verbatim>\<open>this.connection\<close> is
  the driver connection, which is closed and replaced (\<^verbatim>\<open>this.connect()\<close> is not awaited and
  has run to its end when it returns; its failure is not observed), and \<^verbatim>\<open>g\<close> is bound to
  the connection the instance then holds. On the options object of \<^verbatim>\<open>async.retry\<close>, which has
  the fields \<^verbatim>\<open>times\<close>, \<^verbatim>\<open>intervalFunc\<close> and \<^verbatim>\<open>errorFilter\<close>, \<^verbatim>\<open>this.connection\<close> is
  \<^verbatim>\<open>undefined\<close> and \<^verbatim>\<open>this.connection.close()\<close> throws a TypeError.
\<close>

datatype receiver = Retry_options | Connection_instance

definition errorFilter :: "receiver \<Rightarrow> error \<Rightarrow> 'w state \<Rightarrow> (error + bool) \<times> 'w state" where
  "errorFilter this err st =
     (if prefix ''WebSocket is not open'' (message err) then
        (case this of
           Retry_options \<Rightarrow> (Inl (cannot_read JUndefined ''close''), st)
         | Connection_instance \<Rightarrow>
             (case connection st of
                None \<Rightarrow> (Inl (cannot_read JNull ''close''), st)
              | Some c \<Rightarrow>
                  let st1 = st\<lparr>trace := trace st @ [Close c]\<rparr>;
                      st2 = snd (connect st1)
                  in (Inr True, st2\<lparr>g_handle := connection st2\<rparr>)))
      else if sublist ''ConcurrentModificationException'' (message err) then (Inr True, st)
      else if sublist ''ReadOnlyViolationException'' (message err) then (Inr True, st)
      else (Inr False, st))"

text \<open>
  \<^verbatim>\<open>async.retry(opts, task)\<close> of the library \<^verbatim>\<open>async\<close> (version 3), called without a callback:
  it returns a promise. \<open>retryAttempt\<close> is the library's inner function of that name, with
  the counter \<^verbatim>\<open>attempt\<close> starting at 1:
  \<^verbatim>\<open>if (err && attempt++ < options.times && options.errorFilter(err))
      setTimeout(retryAttempt, options.intervalFunc(attempt - 1));
  else callback(err, ...args)\<close>.
  The filter is called as a method of the library's own options object, so that object is its
  receiver. The promise is resolved with the task's result or rejected with the task's error.
  When the filter itself throws, the exception leaves the library's callback; the library
  rethrows it from a \<^verbatim>\<open>setImmediate\<close> callback, outside every promise: the promise is never
  settled and the exception is uncaught (\<open>Uncaught\<close>).
\<close>

datatype 'r outcome = Resolved 'r | Rejected error | Uncaught error

function retryAttempt ::
  "nat \<Rightarrow> nat \<Rightarrow> (receiver \<Rightarrow> error \<Rightarrow> 's \<Rightarrow> (error + bool) \<times> 's) \<Rightarrow> (nat \<Rightarrow> 's \<Rightarrow> 's)
     \<Rightarrow> ('s \<Rightarrow> (error + 'r) \<times> 's) \<Rightarrow> nat \<Rightarrow> 's \<Rightarrow> 'r outcome \<times> 's" where
  "retryAttempt ntimes interval errFilter timer run attempt st =
     (case run st of
        (Inr v, st1) \<Rightarrow> (Resolved v, st1)
      | (Inl err, st1) \<Rightarrow>
          if attempt < ntimes then
            (case errFilter Retry_options err st1 of
               (Inl thrown, st2) \<Rightarrow> (Uncaught thrown, st2)
             | (Inr True, st2) \<Rightarrow>
                 retryAttempt ntimes interval errFilter timer run (attempt + 1)
                   (timer interval st2)
             | (Inr False, st2) \<Rightarrow> (Rejected err, st2))
          else (Rejected err, st1))"
  by pat_completeness auto
termination
  by (relation "measure (\<lambda>(ntimes, interval, errFilter, timer, run, attempt, st). ntimes - attempt)")
     auto

declare retryAttempt.simps [simp del]

text \<open>
  Lines 155-158, the task \<^verbatim>\<open>async () => f(g)\<close>: one invocation of the query function with
  the current handle. The query function is any function of the handle and the remote side
  that returns a result or fails with an error, and leaves the remote side changed.
\<close>

definition task ::
  "(session option \<Rightarrow> 'w \<Rightarrow> (error + 'r) \<times> 'w) \<Rightarrow> 'w state \<Rightarrow> (error + 'r) \<times> 'w state" where
  "task f st =
     (case f (g_handle st) (world st) of
        (r, w) \<Rightarrow> (r, st\<lparr>world := w, trace := trace st @ [Invoke (g_handle st)]\<rparr>))"

definition setTimeout :: "nat \<Rightarrow> 'w state \<Rightarrow> 'w state" where
  "setTimeout ms st = st\<lparr>trace := trace st @ [Wait ms]\<rparr>"

text \<open>Lines 115-159: \<^verbatim>\<open>times: 5\<close>, \<^verbatim>\<open>interval: 1000\<close>.\<close>

definition query ::
  "(session option \<Rightarrow> 'w \<Rightarrow> (error + 'r) \<times> 'w) \<Rightarrow> 'w state \<Rightarrow> 'r outcome \<times> 'w state" where
  "query f st =
     retryAttempt 5 1000 errorFilter setTimeout (task f) 1 (st\<lparr>g_handle := connection st\<rparr>)"

text \<open>
  The close event. The listener of lines 97-103 is called by the socket's event emitter from
  the event loop, not by any operation of the module, and it refers to no operation. What it
  throws leaves the emitter's \<^verbatim>\<open>emit\<close> and reaches no promise: Node reports it as an
  uncaught exception, which ends the process unless a process-wide handler is installed. The
  process is modelled by the promises of the operations in flight and the uncaught exceptions
  raised so far.
\<close>

datatype 'r promise = Pending | Fulfilled 'r | Failed error



section \<open>The remote graph\<close>

text \<open>
  The engine behind the traversal source is not part of the module. Its state is modelled as a
  property graph: vertices and edges by identifier (identifiers and labels are strings, as in
  Neptune), each with its stored properties. An edge leaves its out-vertex \<open>outV\<close> and enters
  its in-vertex \<open>inV\<close>: it is directed from \<open>outV\<close> to \<open>inV\<close>. Each definition below is
  one Gremlin traversal the module runs, named after its steps, with the meaning the TinkerPop
  reference gives them. A traversal that starts at an element that does not exist has no
  traverser and changes nothing; \<^verbatim>\<open>next()\<close> on it yields \<^verbatim>\<open>{value: null, done: true}\<close> and does
  not fail. The engine is modelled as always answering: a round trip that fails is the subject
  of the executor above, whose query function is arbitrary.
\<close>

type_synonym ident = string

record vertex =
  v_label :: string
  v_props :: properties

record edge_element =
  el_label :: string
  outV :: ident
  inV :: ident
  el_props :: properties

record graph =
  vertices :: "ident \<rightharpoonup> vertex"
  edges :: "ident \<rightharpoonup> edge_element"

text \<open>
  \<^verbatim>\<open>gve.call(g, id).valueMap().toList()\<close> (line 407), \<^verbatim>\<open>gve\<close> being \<^verbatim>\<open>g.V\<close> for a node and
  \<^verbatim>\<open>g.E\<close> for an edge: the list of one map from property key to value, or the empty list. For
  a vertex every value comes as a list.
\<close>

definition valueMap_toList :: "bool \<Rightarrow> ident \<Rightarrow> graph \<Rightarrow> jsval list" where
  "valueMap_toList isNode i gr =
     (if isNode
      then (case vertices gr i of
              None \<Rightarrow> []
            | Some v \<Rightarrow> [JObj (map (\<lambda>(k, x). (k, JArr [x])) (v_props v))])
      else (case edges gr i of
              None \<Rightarrow> []
            | Some e \<Rightarrow> [JObj (el_props e)]))"

text \<open>A change of the stored properties of one element, if it exists.\<close>

definition map_props :: "bool \<Rightarrow> ident \<Rightarrow> (properties \<Rightarrow> properties) \<Rightarrow> graph \<Rightarrow> graph" where
  "map_props isNode i h gr =
     (if isNode
      then (case vertices gr i of
              None \<Rightarrow> gr
            | Some v \<Rightarrow> gr\<lparr>vertices := (vertices gr)(i \<mapsto> v\<lparr>v_props := h (v_props v)\<rparr>)\<rparr>)
      else (case edges gr i of
              None \<Rightarrow> gr
            | Some e \<Rightarrow> gr\<lparr>edges := (edges gr)(i \<mapsto> e\<lparr>el_props := h (el_props e)\<rparr>)\<rparr>))"

text \<open>
  \<^verbatim>\<open>gve.call(g, id).properties(ep).drop().next()\<close> (line 412),
  \<^verbatim>\<open>g.V(id).property(single, prop, value).next()\<close> (lines 424-426) and
  \<^verbatim>\<open>g.E(id).property(prop, value).next()\<close> (lines 428-430). With cardinality single the value
  replaces what the vertex had under the key; an edge has one value per key.
\<close>

definition properties_drop :: "bool \<Rightarrow> ident \<Rightarrow> string \<Rightarrow> graph \<Rightarrow> graph" where
  "properties_drop isNode i k = map_props isNode i (AList.delete k)"

definition property_single :: "ident \<Rightarrow> string \<Rightarrow> jsval \<Rightarrow> graph \<Rightarrow> graph" where
  "property_single i k x = map_props True i (AList.update k x)"

definition property_edge :: "ident \<Rightarrow> string \<Rightarrow> jsval \<Rightarrow> graph \<Rightarrow> graph" where
  "property_edge i k x = map_props False i (AList.update k x)"

text \<open>\<^verbatim>\<open>g.addV(label).property(t.id, id).next()\<close> (lines 185-187).\<close>

definition addV :: "string \<Rightarrow> ident \<Rightarrow> graph \<Rightarrow> graph" where
  "addV lbl i gr = gr\<lparr>vertices := (vertices gr)(i \<mapsto> \<lparr>v_label = lbl, v_props = []\<rparr>)\<rparr>"

text \<open>
  \<^verbatim>\<open>g.V(a).as("a").V(current).addE(label).property(t.id, id).from_("a").next()\<close> (lines
  231-237). The traversal has a traverser only if both vertices exist. \<^verbatim>\<open>addE\<close> adds an edge
  at the current vertex; \<^verbatim>\<open>from_("a")\<close> makes the vertex labelled \<^verbatim>\<open>a\<close> its out-vertex, and
  the current vertex stays its in-vertex.
\<close>

definition addE_from :: "ident \<Rightarrow> ident \<Rightarrow> string \<Rightarrow> ident \<Rightarrow> graph \<Rightarrow> graph" where
  "addE_from a current lbl i gr =
     (if vertices gr a \<noteq> None \<and> vertices gr current \<noteq> None
      then gr\<lparr>edges := (edges gr)(i \<mapsto> \<lparr>el_label = lbl, outV = a, inV = current, el_props = []\<rparr>)\<rparr>
      else gr)"

text \<open>
  \<^verbatim>\<open>g.V(id).inE().drop()\<close>, \<^verbatim>\<open>g.V(id).outE().drop()\<close>, \<^verbatim>\<open>g.V(id).drop()\<close> (lines 204-206)
  and \<^verbatim>\<open>g.E(id).drop()\<close> (line 256). Dropping a vertex removes the edges incident to it.
\<close>

definition without ::
  "(edge_element \<Rightarrow> bool) \<Rightarrow> (ident \<rightharpoonup> edge_element) \<Rightarrow> (ident \<rightharpoonup> edge_element)" where
  "without p m = (\<lambda>e. case m e of None \<Rightarrow> None | Some x \<Rightarrow> if p x then None else Some x)"

definition V_inE_drop :: "ident \<Rightarrow> graph \<Rightarrow> graph" where
  "V_inE_drop i gr =
     (if vertices gr i = None then gr else gr\<lparr>edges := without (\<lambda>x. inV x = i) (edges gr)\<rparr>)"

definition V_outE_drop :: "ident \<Rightarrow> graph \<Rightarrow> graph" where
  "V_outE_drop i gr =
     (if vertices gr i = None then gr else gr\<lparr>edges := without (\<lambda>x. outV x = i) (edges gr)\<rparr>)"

definition V_drop :: "ident \<Rightarrow> graph \<Rightarrow> graph" where
  "V_drop i gr =
     (if vertices gr i = None then gr
      else gr\<lparr>vertices := (vertices gr)(i := None),
              edges := without (\<lambda>x. inV x = i \<or> outV x = i) (edges gr)\<rparr>)"

definition E_drop :: "ident \<Rightarrow> graph \<Rightarrow> graph" where
  "E_drop i gr = gr\<lparr>edges := (edges gr)(i := None)\<rparr>"

text \<open>
  The stored properties of an element, if it exists: what the statements about
  \<^verbatim>\<open>updateProperties\<close> below speak of.
\<close>

definition get_props :: "bool \<Rightarrow> ident \<Rightarrow> graph \<Rightarrow> properties option" where
  "get_props isNode i gr =
     (if isNode then map_option v_props (vertices gr i) else map_option el_props (edges gr i))"

section \<open>Saving and deleting: \<^verbatim>\<open>updateProperties\<close>, \<^verbatim>\<open>saveNode\<close>, \<^verbatim>\<open>saveEdge\<close>, \<^verbatim>\<open>deleteNode\<close>, \<^verbatim>\<open>deleteEdge\<close>\<close>

text \<open>
  Lines 402-435. \<^verbatim>\<open>props\<close> is a plain object, given by its own properties. The first loop
  drops every existing key \<^verbatim>\<open>ep\<close> for which \<^verbatim>\<open>ep in props\<close> is false, the second sets every
  key of \<^verbatim>\<open>props\<close> to \<^verbatim>\<open>props[prop]\<close>.
\<close>

definition updateProperties :: "ident \<Rightarrow> properties \<Rightarrow> bool \<Rightarrow> graph \<Rightarrow> graph" where
  "updateProperties i props isNode gr =
     (let existingProps = valueMap_toList isNode i gr;
          gr1 = fold (\<lambda>ep gr'. if \<not> js_in ep props then properties_drop isNode i ep gr' else gr')
                     (for_in (index0 existingProps)) gr
      in fold (\<lambda>prop gr'. if isNode
                            then property_single i prop (member (JObj props) prop) gr'
                            else property_edge i prop (member (JObj props) prop) gr')
              (map fst props) gr1)"

text \<open>
  The arguments of \<^verbatim>\<open>saveNode\<close> and \<^verbatim>\<open>saveEdge\<close>, as their comments give them:
  \<^verbatim>\<open>{id, properties, labels}\<close> and \<^verbatim>\<open>{id, label, from, to, properties}\<close>.
\<close>

record node =
  node_id :: ident
  node_labels :: "string list"
  node_properties :: properties

record edge =
  edge_id :: ident
  edge_label :: string
  edge_from :: ident
  edge_to :: ident
  edge_properties :: properties

definition join :: "string list \<Rightarrow> string \<Rightarrow> string" where
  "join xs sep = (case xs of [] \<Rightarrow> [] | x # rest \<Rightarrow> x @ concat (map (\<lambda>y. sep @ y) rest))"

text \<open>
  Lines 172-193, 200-208, 217-245 and 252-258. Each operation hands a query function to
  \<^const>\<open>query\<close>; the function's argument \<open>g\<close> is the handle through which it reaches the
  graph.
\<close>

definition saveNode_body :: "node \<Rightarrow> session option \<Rightarrow> graph \<Rightarrow> (error + unit) \<times> graph" where
  "saveNode_body node g gr =
     (case vertices gr (node_id node) of
        Some existing \<Rightarrow> (Inr (), updateProperties (node_id node) (node_properties node) True gr)
      | None \<Rightarrow>
          let gr1 = addV (join (node_labels node) ''::'') (node_id node) gr
          in (Inr (), updateProperties (node_id node) (node_properties node) True gr1))"

definition saveNode :: "node \<Rightarrow> graph state \<Rightarrow> unit outcome \<times> graph state" where
  "saveNode node st = query (saveNode_body node) st"

definition deleteNode_body :: "ident \<Rightarrow> session option \<Rightarrow> graph \<Rightarrow> (error + unit) \<times> graph" where
  "deleteNode_body i g gr = (Inr (), V_drop i (V_outE_drop i (V_inE_drop i gr)))"

definition deleteNode :: "ident \<Rightarrow> graph state \<Rightarrow> unit outcome \<times> graph state" where
  "deleteNode i st = query (deleteNode_body i) st"

definition saveEdge_body :: "edge \<Rightarrow> session option \<Rightarrow> graph \<Rightarrow> (error + unit) \<times> graph" where
  "saveEdge_body edge g gr =
     (case edges gr (edge_id edge) of
        Some existing \<Rightarrow> (Inr (), updateProperties (edge_id edge) (edge_properties edge) False gr)
      | None \<Rightarrow>
          let gr1 = addE_from (edge_to edge) (edge_from edge) (edge_label edge) (edge_id edge) gr
          in (Inr (), updateProperties (edge_id edge) (edge_properties edge) False gr1))"

definition saveEdge :: "edge \<Rightarrow> graph state \<Rightarrow> unit outcome \<times> graph state" where
  "saveEdge edge st = query (saveEdge_body edge) st"

definition deleteEdge_body :: "ident \<Rightarrow> session option \<Rightarrow> graph \<Rightarrow> (error + unit) \<times> graph" where
  "deleteEdge_body i g gr = (Inr (), E_drop i gr)"

definition deleteEdge :: "ident \<Rightarrow> graph state \<Rightarrow> unit outcome \<times> graph state" where
  "deleteEdge i st = query (deleteEdge_body i) st"

section \<open>Searching: \<^verbatim>\<open>search\<close> and \<^verbatim>\<open>nodeExists\<close>\<close>

text \<open>
  A raw element is an object of the list a traversal returned (\<^verbatim>\<open>valueMap(true).toList()\<close>
  for the nodes, \<^verbatim>\<open>elementMap().toList()\<close> for the edges), given by its own properties. The
  node and edge objects that \<^verbatim>\<open>search\<close> builds hold whatever values the raw elements hold.
\<close>

type_synonym raw = "(string \<times> jsval) list"

record search_node =
  sn_id :: jsval
  sn_labels :: jsval
  sn_properties :: properties

record search_edge =
  se_id :: jsval
  se_label :: jsval
  se_from :: jsval
  se_to :: jsval
  se_properties :: properties

record search_result =
  res_nodes :: "search_node list"
  res_edges :: "search_edge list"

text \<open>Lines 340-349: the value stored for a property whose raw value is \<^verbatim>\<open>val\<close>.\<close>

fun property_value :: "jsval \<Rightarrow> jsval" where
  "property_value (JArr xs) = (if length xs = 1 then xs ! 0 else JArr xs)"
| "property_value val = val"

text \<open>Lines 327-352, the body of the loop over the raw nodes.\<close>

definition extract_node :: "raw \<Rightarrow> search_node" where
  "extract_node n =
     \<lparr>sn_id = member (JObj n) ''id'',
      sn_labels = (if \<not> isArray (member (JObj n) ''label'')
                   then JArr [member (JObj n) ''label'']
                   else member (JObj n) ''label''),
      sn_properties =
        fold (\<lambda>p props. if p \<noteq> ''id'' \<and> p \<noteq> ''label''
                          then AList.update p (property_value (member (JObj n) p)) props
                          else props)
             (map fst n) []\<rparr>"

text \<open>
  Lines 362-381, the loop over the keys of a raw edge with its \<^verbatim>\<open>switch\<close>; \<^verbatim>\<open>e[key].id\<close>
  throws when \<^verbatim>\<open>e[key]\<close> is \<^verbatim>\<open>null\<close>. Lines 355-361 give the edge its initial fields.
\<close>

fun edge_fields :: "raw \<Rightarrow> string list \<Rightarrow> search_edge \<Rightarrow> error + search_edge" where
  "edge_fields e [] edge = Inr edge"
| "edge_fields e (key # keys) edge =
     (if key = ''id'' then edge_fields e keys (edge\<lparr>se_id := member (JObj e) key\<rparr>)
      else if key = ''label'' then edge_fields e keys (edge\<lparr>se_label := member (JObj e) key\<rparr>)
      else if key = ''IN'' then
        (if nullish (member (JObj e) key) then Inl (cannot_read (member (JObj e) key) ''id'')
         else edge_fields e keys (edge\<lparr>se_from := member (member (JObj e) key) ''id''\<rparr>))
      else if key = ''OUT'' then
        (if nullish (member (JObj e) key) then Inl (cannot_read (member (JObj e) key) ''id'')
         else edge_fields e keys (edge\<lparr>se_to := member (member (JObj e) key) ''id''\<rparr>))
      else edge_fields e keys
             (edge\<lparr>se_properties := AList.update key (member (JObj e) key) (se_properties edge)\<rparr>))"

definition extract_edge :: "raw \<Rightarrow> error + search_edge" where
  "extract_edge e =
     edge_fields e (map fst e)
       \<lparr>se_id = JStr '''', se_label = JStr '''', se_from = JStr '''', se_to = JStr '''',
        se_properties = []\<rparr>"

text \<open>Lines 444-452.\<close>

fun nodeExists :: "search_node list \<Rightarrow> jsval \<Rightarrow> bool" where
  "nodeExists [] i = False"
| "nodeExists (node # nodes) i = (if strict_equals (sn_id node) i then True else nodeExists nodes i)"

text \<open>
  Lines 354-385, the loop over the raw edges: an exception ends it, an edge that passes the test
  of line 382 is pushed, in order.
\<close>

fun extract_edges :: "search_node list \<Rightarrow> raw list \<Rightarrow> error + search_edge list" where
  "extract_edges nodes [] = Inr []"
| "extract_edges nodes (e # rawEdges) =
     (case extract_edge e of
        Inl err \<Rightarrow> Inl err
      | Inr edge \<Rightarrow>
          (case extract_edges nodes rawEdges of
             Inl err \<Rightarrow> Inl err
           | Inr rest \<Rightarrow>
               Inr (if nodeExists nodes (se_from edge) \<and> nodeExists nodes (se_to edge)
                    then edge # rest else rest)))"

text \<open>Lines 324-389: from the two raw lists to the value \<^verbatim>\<open>search\<close> returns.\<close>

definition search_extract :: "raw list \<Rightarrow> raw list \<Rightarrow> error + search_result" where
  "search_extract rawNodes rawEdges =
     (case extract_edges (map extract_node rawNodes) rawEdges of
        Inl err \<Rightarrow> Inl err
      | Inr es \<Rightarrow> Inr \<lparr>res_nodes = map extract_node rawNodes, res_edges = es\<rparr>)"

text \<open>
  Lines 296-392. The two traversals are parameters: \<open>V_valueMap_toList\<close> is given
  \<^verbatim>\<open>options.focus\<close> and runs the focused traversal of lines 311-314 when it is truthy and
  \<^verbatim>\<open>g.V().valueMap(true).toList()\<close> otherwise; \<open>E_elementMap_toList\<close> is line 321. Either may
  fail, and each returns a list of raw elements.
\<close>

definition search_body ::
  "(jsval \<Rightarrow> session option \<Rightarrow> 'w \<Rightarrow> (error + raw list) \<times> 'w)
     \<Rightarrow> (session option \<Rightarrow> 'w \<Rightarrow> (error + raw list) \<times> 'w)
     \<Rightarrow> jsval \<Rightarrow> session option \<Rightarrow> 'w \<Rightarrow> (error + search_result) \<times> 'w" where
  "search_body V_valueMap_toList E_elementMap_toList options g w =
     (if nullish options then (Inl (cannot_read options ''focus''), w)
      else
        case V_valueMap_toList (member options ''focus'') g w of
          (Inl err, w1) \<Rightarrow> (Inl err, w1)
        | (Inr rawNodes, w1) \<Rightarrow>
            (case E_elementMap_toList g w1 of
               (Inl err, w2) \<Rightarrow> (Inl err, w2)
             | (Inr rawEdges, w2) \<Rightarrow> (search_extract rawNodes rawEdges, w2)))"

definition search ::
  "(jsval \<Rightarrow> session option \<Rightarrow> 'w \<Rightarrow> (error + raw list) \<times> 'w)
     \<Rightarrow> (session option \<Rightarrow> 'w \<Rightarrow> (error + raw list) \<times> 'w)
     \<Rightarrow> jsval \<Rightarrow> 'w state \<Rightarrow> search_result outcome \<times> 'w state" where
  "search V_valueMap_toList E_elementMap_toList options st =
     query (search_body V_valueMap_toList E_elementMap_toList options) st"

section \<open>Example inputs\<close>

text \<open>
  Concrete inputs at which the theorems below are evaluated: a connection without IAM that has
  connected once, a query function that fails on every call with a given message and counts its
  calls in the remote state, one that fails with a conflict on its first call only, a graph of a car and its owner, an edge value to save, and the raw
  lists a search of a graph with two edges returns when only those two vertices are found.
\<close>

definition example_connection :: "'w \<Rightarrow> 'w state" where
  "example_connection w =
     snd (connect (Connection (JStr ''db.example'') (JNum 8182) False Map.empty w))"

definition always_fails :: "string \<Rightarrow> session option \<Rightarrow> nat \<Rightarrow> (error + unit) \<times> nat" where
  "always_fails msg h calls = (Inl (Error msg), Suc calls)"

definition fails_once :: "session option \<Rightarrow> nat \<Rightarrow> (error + string) \<times> nat" where
  "fails_once h calls =
     (if calls = 0 then (Inl (Error ''ConcurrentModificationException''), 1)
      else (Inr ''done'', Suc calls))"

definition example_graph :: graph where
  "example_graph =
     \<lparr>vertices = [''v1'' \<mapsto> \<lparr>v_label = ''car'',
                              v_props = [(''constructor'', JStr ''Ferrari''),
                                         (''colour'', JStr ''red'')]\<rparr>,
                  ''v2'' \<mapsto> \<lparr>v_label = ''person'', v_props = [(''name'', JStr ''Eric'')]\<rparr>],
      edges = Map.empty\<rparr>"

definition example_edge :: edge where
  "example_edge =
     \<lparr>edge_id = ''e1'', edge_label = ''owns'', edge_from = ''v2'', edge_to = ''v1'',
      edge_properties = [(''since'', JNum 2020)]\<rparr>"



chapter \<open>Properties\<close>

section \<open>Request signing\<close>

lemma truthy_js_or: "truthy (js_or a b) = (truthy a \<or> truthy b)"
  by (simp add: js_or_def)

text \<open>
  C10, as the claim words it, on two concrete inputs with host and port present. In the first
  the credentials argument gives only an access key and the environment gives only a secret key,
  so neither of the two yields both keys; the call does not fail: each key is resolved on its
  own, the access key from the argument, the secret key from the environment. In the second the
  credentials argument is \<^verbatim>\<open>undefined\<close> and the environment is empty, so no key is found at
  all; the call fails, but with the TypeError of reading \<^verbatim>\<open>credentials.accessKey\<close>, not with
  the missing-credentials error.
\<close>

theorem getHeaders_mixed_sources_counterexample:
  "getHeaders [''AWS_SECRET_ACCESS_KEY'' \<mapsto> ''SK''] (JStr ''db.example'') (JNum 8182)
       (JObj [(''accessKey'', JStr ''AK'')]) (JStr ''/gremlin'')
     = Inr (Aws4_headers
             \<lparr>so_host = JStr ''db.example'', so_port = JNum 8182, so_region = JUndefined,
              so_path = JStr ''/gremlin'', so_service = ''neptune-db''\<rparr>
             \<lparr>accessKeyId = JStr ''AK'', secretAccessKey = JStr ''SK'',
              sessionToken = JUndefined\<rparr>)
   \<and> member (JObj [(''accessKey'', JStr ''AK'')]) ''secretKey'' = JUndefined
   \<and> member (JObj [(''accessKey'', JStr ''AK'')]) ''secretAccessKey'' = JUndefined
   \<and> getenv [''AWS_SECRET_ACCESS_KEY'' \<mapsto> ''SK''] ''AWS_ACCESS_KEY_ID'' = JUndefined
   \<and> getHeaders Map.empty (JStr ''db.example'') (JNum 8182) JUndefined (JStr ''/gremlin'')
     = Inl (TypeError ''Cannot read properties of undefined (reading 'accessKey')'')"
  by (simp add: getHeaders_def js_or_def getenv_def nullish_def cannot_read_def)

text \<open>
  C10, amended. (1) When host or port is absent (falsy: undefined, null, the empty string, zero),
  \<^verbatim>\<open>getHeaders\<close> fails with the missing-endpoint error, whatever the credentials and the
  environment are. (2) When host and port are present and the credentials argument is an object,
  it fails with the missing-credentials error exactly when the access key id (the argument's
  \<^verbatim>\<open>accessKey\<close>, else its \<^verbatim>\<open>accessKeyId\<close>, else \<^verbatim>\<open>AWS_ACCESS_KEY_ID\<close>) or the secret
  access key (the argument's \<^verbatim>\<open>secretKey\<close>, else its \<^verbatim>\<open>secretAccessKey\<close>, else
  \<^verbatim>\<open>AWS_SECRET_ACCESS_KEY\<close>) is missing; each of the two is resolved on its own, so one may
  come from the argument and the other from the environment. (3) Otherwise it returns the signed
  headers, whether or not a session token or a region is found.
\<close>

theorem getHeaders_failures:
  "(\<not> truthy h \<or> \<not> truthy p \<longrightarrow>
      getHeaders env h p credentials uri = Inl (Error ''Host and port are required''))
   \<and> (truthy h \<and> truthy p \<longrightarrow>
        (getHeaders env h p (JObj kvs) uri
           = Inl (Error ''Access key and secret key are required''))
        = (\<not> (truthy (member (JObj kvs) ''accessKey'') \<or> truthy (member (JObj kvs) ''accessKeyId'')
               \<or> truthy (getenv env ''AWS_ACCESS_KEY_ID''))
           \<or> \<not> (truthy (member (JObj kvs) ''secretKey'')
               \<or> truthy (member (JObj kvs) ''secretAccessKey'')
               \<or> truthy (getenv env ''AWS_SECRET_ACCESS_KEY''))))
   \<and> (truthy h \<and> truthy p
        \<and> (truthy (member (JObj kvs) ''accessKey'') \<or> truthy (member (JObj kvs) ''accessKeyId'')
               \<or> truthy (getenv env ''AWS_ACCESS_KEY_ID''))
        \<and> (truthy (member (JObj kvs) ''secretKey'')
               \<or> truthy (member (JObj kvs) ''secretAccessKey'')
               \<or> truthy (getenv env ''AWS_SECRET_ACCESS_KEY'')) \<longrightarrow>
        (\<exists>so cr. getHeaders env h p (JObj kvs) uri = Inr (Aws4_headers so cr)
           \<and> sessionToken cr = js_or (member (JObj kvs) ''sessionToken'')
                                     (getenv env ''AWS_SESSION_TOKEN'')
           \<and> so_region so = js_or (member (JObj kvs) ''region'')
                                  (getenv env ''AWS_DEFAULT_REGION'')))"
  by (auto simp add: getHeaders_def Let_def nullish_def truthy_js_or)

theorem getHeaders_failures_witness:
  "getHeaders Map.empty JUndefined (JNum 8182) JUndefined (JStr ''/gremlin'')
     = Inl (Error ''Host and port are required'')
   \<and> getHeaders [''AWS_ACCESS_KEY_ID'' \<mapsto> ''AK''] (JStr ''db.example'') (JNum 8182)
        (JObj [(''secretKey'', JStr '''')]) (JStr ''/gremlin'')
     = Inl (Error ''Access key and secret key are required'')
   \<and> (\<exists>so cr. getHeaders [''AWS_ACCESS_KEY_ID'' \<mapsto> ''AK''] (JStr ''db.example'') (JNum 8182)
        (JObj [(''secretKey'', JStr ''SK'')]) (JStr ''/gremlin'') = Inr (Aws4_headers so cr)
        \<and> sessionToken cr = JUndefined \<and> so_region so = JUndefined)"
  using getHeaders_failures [of JUndefined "JNum 8182" Map.empty JUndefined "JStr ''/gremlin''"]
    getHeaders_failures [of "JStr ''db.example''" "JNum 8182" "[''AWS_ACCESS_KEY_ID'' \<mapsto> ''AK'']"
      JUndefined "JStr ''/gremlin''" "[(''secretKey'', JStr '''')]"]
    getHeaders_failures [of "JStr ''db.example''" "JNum 8182" "[''AWS_ACCESS_KEY_ID'' \<mapsto> ''AK'']"
      JUndefined "JStr ''/gremlin''" "[(''secretKey'', JStr ''SK'')]"]
  by (simp add: getenv_def js_or_def)

section \<open>The retrying executor\<close>

text \<open>One round of \<open>retryAttempt\<close>, by the outcome of the task and of the filter.\<close>

lemma retry_resolved:
  "tsk st = (Inr v, st1) \<Longrightarrow> retryAttempt n i flt tmo tsk a st = (Resolved v, st1)"
  by (subst retryAttempt.simps) simp

lemma retry_exhausted:
  "tsk st = (Inl e, st1) \<Longrightarrow> \<not> a < n \<Longrightarrow> retryAttempt n i flt tmo tsk a st = (Rejected e, st1)"
  by (subst retryAttempt.simps) simp

lemma retry_not_retryable:
  "tsk st = (Inl e, st1) \<Longrightarrow> a < n \<Longrightarrow> flt Retry_options e st1 = (Inr False, st2) \<Longrightarrow>
   retryAttempt n i flt tmo tsk a st = (Rejected e, st2)"
  by (subst retryAttempt.simps) simp

lemma retry_again:
  "tsk st = (Inl e, st1) \<Longrightarrow> a < n \<Longrightarrow> flt Retry_options e st1 = (Inr True, st2) \<Longrightarrow>
   retryAttempt n i flt tmo tsk a st = retryAttempt n i flt tmo tsk (a + 1) (tmo i st2)"
  by (subst retryAttempt.simps) simp

lemma retry_filter_throws:
  "tsk st = (Inl e, st1) \<Longrightarrow> a < n \<Longrightarrow> flt Retry_options e st1 = (Inl x, st2) \<Longrightarrow>
   retryAttempt n i flt tmo tsk a st = (Uncaught x, st2)"
  by (subst retryAttempt.simps) simp

lemma task_fails:
  "f (g_handle s) (world s) = (Inl e, w') \<Longrightarrow>
   task f s = (Inl e, s\<lparr>world := w', trace := trace s @ [Invoke (g_handle s)]\<rparr>)"
  by (simp add: task_def)

lemma errorFilter_keeps_handle:
  "\<not> prefix ''WebSocket is not open'' (message e) \<Longrightarrow>
   sublist ''ConcurrentModificationException'' (message e)
     \<or> sublist ''ReadOnlyViolationException'' (message e) \<Longrightarrow>
   errorFilter this e s = (Inr True, s)"
  by (auto simp add: errorFilter_def)

lemma errorFilter_unrecognized:
  "\<not> prefix ''WebSocket is not open'' (message e) \<Longrightarrow>
   \<not> sublist ''ConcurrentModificationException'' (message e) \<Longrightarrow>
   \<not> sublist ''ReadOnlyViolationException'' (message e) \<Longrightarrow>
   errorFilter this e s = (Inr False, s)"
  by (simp add: errorFilter_def)

lemma funpow_4: "(f ^^ 4) x = f (f (f (f x)))"
  by (simp add: numeral_Bit0 funpow_add)

text \<open>
  A failed attempt whose error the filter accepts without touching the connection, before the
  last attempt: the timer is set and the next attempt runs with the same handle.
\<close>

lemma retry_step:
  assumes "f h w = (Inl e, w')"
    and "\<not> prefix ''WebSocket is not open'' (message e)
         \<and> (sublist ''ConcurrentModificationException'' (message e)
              \<or> sublist ''ReadOnlyViolationException'' (message e))"
    and "a < n" and "b = a + 1"
  shows "retryAttempt n i errorFilter setTimeout (task f) a
           (st\<lparr>g_handle := h, world := w, trace := t\<rparr>)
         = retryAttempt n i errorFilter setTimeout (task f) b
             (st\<lparr>g_handle := h, world := w', trace := t @ [Invoke h, Wait i]\<rparr>)"
proof -
  let ?s = "st\<lparr>g_handle := h, world := w, trace := t\<rparr>"
  let ?s1 = "?s\<lparr>world := w', trace := trace ?s @ [Invoke (g_handle ?s)]\<rparr>"
  have run: "task f ?s = (Inl e, ?s1)"
    using assms(1) task_fails [of f ?s e w'] by simp
  have keep: "errorFilter Retry_options e ?s1 = (Inr True, ?s1)"
    using assms(2) by (intro errorFilter_keeps_handle) simp_all
  have "retryAttempt n i errorFilter setTimeout (task f) a ?s
        = retryAttempt n i errorFilter setTimeout (task f) (a + 1) (setTimeout i ?s1)"
    using run assms(3) keep by (rule retry_again)
  then show ?thesis using assms(4) by (simp add: setTimeout_def)
qed

lemma retry_last:
  assumes "f h w = (Inl e, w')" and "\<not> a < n"
  shows "retryAttempt n i errorFilter setTimeout (task f) a
           (st\<lparr>g_handle := h, world := w, trace := t\<rparr>)
         = (Rejected e, st\<lparr>g_handle := h, world := w', trace := t @ [Invoke h]\<rparr>)"
proof -
  let ?s = "st\<lparr>g_handle := h, world := w, trace := t\<rparr>"
  let ?s1 = "?s\<lparr>world := w', trace := trace ?s @ [Invoke (g_handle ?s)]\<rparr>"
  have run: "task f ?s = (Inl e, ?s1)"
    using assms(1) task_fails [of f ?s e w'] by simp
  have "retryAttempt n i errorFilter setTimeout (task f) a ?s = (Rejected e, ?s1)"
    using run assms(2) by (rule retry_exhausted)
  then show ?thesis by simp
qed

lemma example_connection_eq:
  "example_connection w =
     \<lparr>host = JStr ''db.example'', port = JNum 8182, useIam = False, connection = Some 0,
      process_env = Map.empty, constructed = Suc 0, g_handle = None, world = w,
      trace = [Open 0 No_headers]\<rparr>"
  by (simp add: example_connection_def connect_def Connection_def)

lemma query_resolves:
  assumes "f (connection st) (world st) = (Inr r, w')"
  shows "query f st
         = (Resolved r,
            st\<lparr>g_handle := connection st, world := w',
               trace := trace st @ [Invoke (connection st)]\<rparr>)"
proof -
  let ?s0 = "st\<lparr>g_handle := connection st\<rparr>"
  have "task f ?s0 = (Inr r, ?s0\<lparr>world := w', trace := trace ?s0 @ [Invoke (g_handle ?s0)]\<rparr>)"
    using assms by (simp add: task_def)
  then have "retryAttempt 5 1000 errorFilter setTimeout (task f) 1 ?s0
             = (Resolved r, ?s0\<lparr>world := w', trace := trace ?s0 @ [Invoke (g_handle ?s0)]\<rparr>)"
    by (rule retry_resolved)
  then show ?thesis by (simp add: query_def)
qed

text \<open>
  C3, as stated, at a query function that fails on every call with a read-only violation, on a
  connected instance: the function is called five times with waits of 1000 ms between the
  calls, and the promise is rejected with the error of the fifth call itself. Its name is
  \<^verbatim>\<open>Error\<close> and it has no cause: no \<^verbatim>\<open>RetryExhausted\<close> error wraps it.
\<close>

theorem query_unwrapped_counterexample:
  "query (always_fails ''ReadOnlyViolationException: replica'') (example_connection 0)
   = (Rejected (JsError ''Error'' ''ReadOnlyViolationException: replica'' None),
      \<lparr>host = JStr ''db.example'', port = JNum 8182, useIam = False, connection = Some 0,
       process_env = Map.empty, constructed = Suc 0, g_handle = Some 0, world = 5,
       trace = [Open 0 No_headers, Invoke (Some 0), Wait 1000, Invoke (Some 0), Wait 1000,
                Invoke (Some 0), Wait 1000, Invoke (Some 0), Wait 1000, Invoke (Some 0)]\<rparr>)"
proof -
  let ?f = "always_fails ''ReadOnlyViolationException: replica''"
  let ?e = "Error ''ReadOnlyViolationException: replica''"
  let ?go = "retryAttempt 5 1000 errorFilter setTimeout (task ?f)"
  let ?S = "\<lambda>w t. (example_connection (0::nat))\<lparr>g_handle := Some 0, world := w, trace := t\<rparr>"
  let ?iw = "[Invoke (Some 0), Wait 1000]"
  let ?t0 = "[Open 0 No_headers]"
  have r: "\<not> prefix ''WebSocket is not open'' (message ?e)
         \<and> (sublist ''ConcurrentModificationException'' (message ?e)
              \<or> sublist ''ReadOnlyViolationException'' (message ?e))"
    by (simp add: sublist_code)
  have f: "\<And>h w. ?f h w = (Inl ?e, Suc w)" by (simp add: always_fails_def)
  have "query ?f (example_connection 0) = ?go 1 (?S 0 ?t0)"
    by (simp add: query_def example_connection_eq)
  also have "\<dots> = ?go 2 (?S 1 (?t0 @ ?iw))"
    by (rule retry_step [where f = ?f and h = "Some 0" and w = 0 and e = ?e, OF _ r]) (simp_all add: f)
  also have "\<dots> = ?go 3 (?S 2 ((?t0 @ ?iw) @ ?iw))"
    by (rule retry_step [where f = ?f and h = "Some 0" and w = 1 and e = ?e, OF _ r])
       (simp_all add: f)
  also have "\<dots> = ?go 4 (?S 3 (((?t0 @ ?iw) @ ?iw) @ ?iw))"
    by (rule retry_step [where f = ?f and h = "Some 0" and w = 2 and e = ?e, OF _ r])
       (simp_all add: f)
  also have "\<dots> = ?go 5 (?S 4 ((((?t0 @ ?iw) @ ?iw) @ ?iw) @ ?iw))"
    by (rule retry_step [where f = ?f and h = "Some 0" and w = 3 and e = ?e, OF _ r])
       (simp_all add: f)
  also have "\<dots> = (Rejected ?e, ?S 5 (((((?t0 @ ?iw) @ ?iw) @ ?iw) @ ?iw) @ [Invoke (Some 0)]))"
    by (rule retry_last [where f = ?f and h = "Some 0" and w = 4]) (simp_all add: f)
  finally show ?thesis by (simp add: example_connection_eq)
qed

text \<open>
  C3, amended. For every query function that fails on every invocation with an error whose
  message contains \<^verbatim>\<open>ConcurrentModificationException\<close> or \<^verbatim>\<open>ReadOnlyViolationException\<close> and
  does not start with \<^verbatim>\<open>WebSocket is not open\<close>, the executor invokes the query function
  exactly five times, each time with the handle of the connection it started with, sets a timer
  of 1000 ms between two attempts, and then rejects with the error of the fifth invocation
  itself, not wrapped. The remote state is threaded through the five calls.
\<close>

theorem query_five_attempts:
  assumes always: "\<forall>h w. \<exists>e w'. f h w = (Inl e, w')
             \<and> \<not> prefix ''WebSocket is not open'' (message e)
             \<and> (sublist ''ConcurrentModificationException'' (message e)
                  \<or> sublist ''ReadOnlyViolationException'' (message e))"
  shows "\<exists>e w'. f (connection st) (((\<lambda>w. snd (f (connection st) w)) ^^ 4) (world st)) = (Inl e, w')
           \<and> query f st
             = (Rejected e,
                st\<lparr>g_handle := connection st, world := w',
                   trace := trace st @
                     [Invoke (connection st), Wait 1000, Invoke (connection st), Wait 1000,
                      Invoke (connection st), Wait 1000, Invoke (connection st), Wait 1000,
                      Invoke (connection st)]\<rparr>)"
proof -
  let ?h = "connection st"
  let ?R = "\<lambda>e. \<not> prefix ''WebSocket is not open'' (message e)
             \<and> (sublist ''ConcurrentModificationException'' (message e)
                  \<or> sublist ''ReadOnlyViolationException'' (message e))"
  from always obtain e1 w1 where f1: "f ?h (world st) = (Inl e1, w1)" and r1: "?R e1" by blast
  from always obtain e2 w2 where f2: "f ?h w1 = (Inl e2, w2)" and r2: "?R e2" by blast
  from always obtain e3 w3 where f3: "f ?h w2 = (Inl e3, w3)" and r3: "?R e3" by blast
  from always obtain e4 w4 where f4: "f ?h w3 = (Inl e4, w4)" and r4: "?R e4" by blast
  from always obtain e5 w5 where f5: "f ?h w4 = (Inl e5, w5)" and r5: "?R e5" by blast
  let ?go = "retryAttempt 5 1000 errorFilter setTimeout (task f)"
  let ?S = "\<lambda>w t. st\<lparr>g_handle := ?h, world := w, trace := t\<rparr>"
  let ?iw = "[Invoke ?h, Wait 1000]"
  have "query f st = ?go 1 (?S (world st) (trace st))"
    by (simp add: query_def)
  also have "\<dots> = ?go 2 (?S w1 (trace st @ ?iw))"
    by (rule retry_step [where f = f and h = "connection st" and w = "world st", OF f1 r1]) simp_all
  also have "\<dots> = ?go 3 (?S w2 ((trace st @ ?iw) @ ?iw))"
    by (rule retry_step [where f = f and h = "connection st" and w = "w1", OF f2 r2]) simp_all
  also have "\<dots> = ?go 4 (?S w3 (((trace st @ ?iw) @ ?iw) @ ?iw))"
    by (rule retry_step [where f = f and h = "connection st" and w = "w2", OF f3 r3]) simp_all
  also have "\<dots> = ?go 5 (?S w4 ((((trace st @ ?iw) @ ?iw) @ ?iw) @ ?iw))"
    by (rule retry_step [where f = f and h = "connection st" and w = "w3", OF f4 r4]) simp_all
  also have "\<dots> = (Rejected e5, ?S w5 (((((trace st @ ?iw) @ ?iw) @ ?iw) @ ?iw) @ [Invoke ?h]))"
    by (rule retry_last [where f = f and h = "connection st" and w = w4, OF f5]) simp
  finally have q: "query f st
      = (Rejected e5, ?S w5 (((((trace st @ ?iw) @ ?iw) @ ?iw) @ ?iw) @ [Invoke ?h]))" .
  have "((\<lambda>w. snd (f ?h w)) ^^ 4) (world st) = w4"
    using f1 f2 f3 f4 by (simp add: funpow_4)
  with f5 q show ?thesis by simp
qed

theorem query_five_attempts_witness:
  "(\<forall>h w. \<exists>e w'. always_fails ''ConcurrentModificationException'' h w = (Inl e, w')
       \<and> \<not> prefix ''WebSocket is not open'' (message e)
       \<and> (sublist ''ConcurrentModificationException'' (message e)
            \<or> sublist ''ReadOnlyViolationException'' (message e)))
   \<and> query (always_fails ''ConcurrentModificationException'') (example_connection 0)
     = (Rejected (Error ''ConcurrentModificationException''),
        (example_connection 0)\<lparr>g_handle := Some 0, world := 5,
          trace := [Open 0 No_headers, Invoke (Some 0), Wait 1000, Invoke (Some 0), Wait 1000,
                    Invoke (Some 0), Wait 1000, Invoke (Some 0), Wait 1000, Invoke (Some 0)]\<rparr>)"
proof -
  have a: "\<forall>h w. \<exists>e w'. always_fails ''ConcurrentModificationException'' h w = (Inl e, w')
       \<and> \<not> prefix ''WebSocket is not open'' (message e)
       \<and> (sublist ''ConcurrentModificationException'' (message e)
            \<or> sublist ''ReadOnlyViolationException'' (message e))"
    by (simp add: always_fails_def)
  have f: "\<And>h w. always_fails ''ConcurrentModificationException'' h w
                 = (Inl (Error ''ConcurrentModificationException''), Suc w)"
    by (simp add: always_fails_def)
  let ?st = "example_connection (0::nat)"
  let ?f = "always_fails ''ConcurrentModificationException''"
  have "\<exists>e w'. ?f (connection ?st) (((\<lambda>w. snd (?f (connection ?st) w)) ^^ 4) (world ?st))
                 = (Inl e, w')
           \<and> query ?f ?st
             = (Rejected e,
                ?st\<lparr>g_handle := connection ?st, world := w',
                   trace := trace ?st @
                     [Invoke (connection ?st), Wait 1000, Invoke (connection ?st), Wait 1000,
                      Invoke (connection ?st), Wait 1000, Invoke (connection ?st), Wait 1000,
                      Invoke (connection ?st)]\<rparr>)"
    using a by (rule query_five_attempts)
  then have "query (always_fails ''ConcurrentModificationException'') (example_connection 0)
     = (Rejected (Error ''ConcurrentModificationException''),
        (example_connection 0)\<lparr>g_handle := Some 0, world := 5,
          trace := [Open 0 No_headers, Invoke (Some 0), Wait 1000, Invoke (Some 0), Wait 1000,
                    Invoke (Some 0), Wait 1000, Invoke (Some 0), Wait 1000, Invoke (Some 0)]\<rparr>)"
    by (auto simp add: f example_connection_eq funpow_4)
  with a show ?thesis by blast
qed

text \<open>
  C4. When the query function fails, on its first invocation, with an error whose message
  matches none of the three recognised classes (it does not start with
  \<^verbatim>\<open>WebSocket is not open\<close> and contains neither \<^verbatim>\<open>ConcurrentModificationException\<close> nor
  \<^verbatim>\<open>ReadOnlyViolationException\<close>), the executor has invoked it exactly once, sets no timer,
  leaves the connection alone and rejects with that very error.
\<close>

theorem query_unrecognized_error:
  assumes "f (connection st) (world st) = (Inl e, w')"
    and "\<not> prefix ''WebSocket is not open'' (message e)"
    and "\<not> sublist ''ConcurrentModificationException'' (message e)"
    and "\<not> sublist ''ReadOnlyViolationException'' (message e)"
  shows "query f st
         = (Rejected e,
            st\<lparr>g_handle := connection st, world := w',
               trace := trace st @ [Invoke (connection st)]\<rparr>)"
proof -
  let ?s0 = "st\<lparr>g_handle := connection st\<rparr>"
  have "task f ?s0 = (Inl e, ?s0\<lparr>world := w', trace := trace ?s0 @ [Invoke (g_handle ?s0)]\<rparr>)"
    using assms(1) task_fails [of f ?s0 e w'] by simp
  then have "retryAttempt 5 1000 errorFilter setTimeout (task f) 1 ?s0
             = (Rejected e, ?s0\<lparr>world := w', trace := trace ?s0 @ [Invoke (g_handle ?s0)]\<rparr>)"
    by (rule retry_not_retryable) (simp_all add: errorFilter_unrecognized [OF assms(2-4)])
  then show ?thesis by (simp add: query_def)
qed

theorem query_unrecognized_error_witness:
  "always_fails ''boom'' (Some 0) 0 = (Inl (Error ''boom''), 1)
   \<and> \<not> prefix ''WebSocket is not open'' ''boom''
   \<and> \<not> sublist ''ConcurrentModificationException'' ''boom''
   \<and> \<not> sublist ''ReadOnlyViolationException'' ''boom''
   \<and> query (always_fails ''boom'') (example_connection 0)
     = (Rejected (Error ''boom''),
        (example_connection 0)\<lparr>g_handle := Some 0, world := 1,
          trace := [Open 0 No_headers, Invoke (Some 0)]\<rparr>)"
proof -
  have f: "\<And>h w. always_fails ''boom'' h w = (Inl (Error ''boom''), Suc w)"
    by (simp add: always_fails_def)
  show ?thesis
    using query_unrecognized_error
            [of "always_fails ''boom''" "example_connection 0" "Error ''boom''" 1]
    by (simp add: f example_connection_eq sublist_code)
qed

text \<open>
  C6, evaluated at a query function that fails with \<^verbatim>\<open>WebSocket is not open\<close>. The filter
  runs with the options object of \<^verbatim>\<open>async.retry\<close> as its receiver, so
  \<^verbatim>\<open>this.connection.close()\<close> throws a TypeError before anything is closed or opened: the
  trace holds the one invocation and no \<open>Close\<close> or \<open>Open\<close> after it, the instance
  keeps the connection it had, the query function is not invoked again, and the exception is
  uncaught.
\<close>

theorem query_socket_not_open_no_reconnect:
  "query (always_fails ''WebSocket is not open: readyState 3 (CLOSED)'') (example_connection 0)
   = (Uncaught (TypeError ''Cannot read properties of undefined (reading 'close')''),
      \<lparr>host = JStr ''db.example'', port = JNum 8182, useIam = False, connection = Some 0,
       process_env = Map.empty, constructed = Suc 0, g_handle = Some 0, world = 1,
       trace = [Open 0 No_headers, Invoke (Some 0)]\<rparr>)"
proof -
  let ?f = "always_fails ''WebSocket is not open: readyState 3 (CLOSED)''"
  let ?e = "Error ''WebSocket is not open: readyState 3 (CLOSED)''"
  let ?s0 = "(example_connection (0::nat))\<lparr>g_handle := Some 0\<rparr>"
  let ?s1 = "?s0\<lparr>world := 1, trace := trace ?s0 @ [Invoke (g_handle ?s0)]\<rparr>"
  have run: "task ?f ?s0 = (Inl ?e, ?s1)"
    by (simp add: task_def always_fails_def example_connection_eq)
  have thrown: "errorFilter Retry_options ?e ?s1
                = (Inl (TypeError ''Cannot read properties of undefined (reading 'close')''), ?s1)"
    by (simp add: errorFilter_def cannot_read_def)
  have "retryAttempt 5 1000 errorFilter setTimeout (task ?f) 1 ?s0
        = (Uncaught (TypeError ''Cannot read properties of undefined (reading 'close')''), ?s1)"
    using run _ thrown by (rule retry_filter_throws) simp
  then show ?thesis by (simp add: query_def example_connection_eq)
qed

text \<open>
  For comparison, the same error given to the filter with the connection instance as its
  receiver, which is what lines 133-135 are written for: the connection is closed, a new one is
  opened and the handle is bound to it.
\<close>

lemma errorFilter_on_connection:
  "errorFilter Connection_instance (Error ''WebSocket is not open: readyState 3 (CLOSED)'')
     ((example_connection w)\<lparr>g_handle := Some 0\<rparr>)
   = (Inr True,
      \<lparr>host = JStr ''db.example'', port = JNum 8182, useIam = False, connection = Some 1,
       process_env = Map.empty, constructed = 2, g_handle = Some 1, world = w,
       trace = [Open 0 No_headers, Close 0, Open 1 No_headers]\<rparr>)"
  by (simp add: errorFilter_def connect_def example_connection_eq Let_def)

section \<open>The close event\<close>


section \<open>Property reconciliation\<close>

lemma get_props_map_props:
  "get_props b i (map_props b i h gr) = map_option h (get_props b i gr)"
  by (auto simp add: get_props_def map_props_def split: option.splits)

lemma get_props_drop_loop:
  "get_props b i (fold (\<lambda>ep gr'. if \<not> js_in ep P then properties_drop b i ep gr' else gr') ks gr)
   = map_option (fold (\<lambda>ep ps. if \<not> js_in ep P then AList.delete ep ps else ps) ks)
       (get_props b i gr)"
proof (induction ks arbitrary: gr)
  case Nil
  show ?case by (simp add: option.map_ident)
next
  case (Cons k ks)
  show ?case
    by (simp add: Cons.IH properties_drop_def get_props_map_props option.map_comp comp_def)
qed

lemma get_props_fold_map_props:
  "get_props b i (fold (\<lambda>k. map_props b i (h k)) ks gr)
   = map_option (fold h ks) (get_props b i gr)"
proof (induction ks arbitrary: gr)
  case Nil
  show ?case by (simp add: option.map_ident)
next
  case (Cons k ks)
  show ?case
    by (simp add: Cons.IH get_props_map_props option.map_comp comp_def)
qed

lemma map_of_drop_loop:
  "map_of (fold (\<lambda>ep ps. if \<not> js_in ep P then AList.delete ep ps else ps) ks ps) k
   = (if k \<in> set ks \<and> \<not> js_in k P then None else map_of ps k)"
  by (induction ks arbitrary: ps) (auto simp add: delete_conv')

lemma map_of_save_loop:
  "map_of (fold (\<lambda>prop. AList.update prop (val prop)) ks ps) k
   = (if k \<in> set ks then Some (val k) else map_of ps k)"
  by (induction ks arbitrary: ps) (auto simp add: update_conv')

lemma member_own: "k \<in> fst ` set P \<Longrightarrow> Some (member (JObj P) k) = map_of P k"
  by (cases "map_of P k") (auto simp add: map_of_eq_None_iff)

text \<open>
  What the two loops of \<open>updateProperties\<close> leave of the properties \<open>C\<close> an element had:
  the second loop's updates applied to the first loop's deletions.
\<close>

lemma updateProperties_props:
  "get_props isNode i (updateProperties i P isNode gr)
   = map_option
       (\<lambda>C. fold (\<lambda>prop. AList.update prop (member (JObj P) prop)) (map fst P)
              (fold (\<lambda>ep ps. if \<not> js_in ep P then AList.delete ep ps else ps) (map fst C) C))
       (get_props isNode i gr)"
proof (cases "get_props isNode i gr")
  case None
  then show ?thesis
    by (cases isNode)
       (simp_all add: updateProperties_def Let_def property_single_def property_edge_def
          get_props_fold_map_props get_props_drop_loop)
next
  case (Some C)
  then have keys: "for_in (index0 (valueMap_toList isNode i gr)) = map fst C"
    by (cases isNode)
       (auto simp add: get_props_def valueMap_toList_def index0_def comp_def case_prod_unfold)
  show ?thesis
    using Some keys
    by (cases isNode)
       (simp_all add: updateProperties_def Let_def property_single_def property_edge_def
          get_props_fold_map_props get_props_drop_loop)
qed

text \<open>
  The mapping an existing element ends with: the desired value on every key of \<open>P\<close>; on a
  key outside \<open>P\<close> that \<^verbatim>\<open>in\<close> finds on the prototype, whatever the element had; nothing
  else.
\<close>

lemma updateProperties_map_of:
  assumes "get_props isNode i gr = Some C"
  shows "\<exists>ps. get_props isNode i (updateProperties i P isNode gr) = Some ps
           \<and> (\<forall>k. map_of ps k
                    = (if k \<in> fst ` set P then map_of P k
                       else if k \<in> set object_prototype_keys then map_of C k else None))"
proof -
  let ?ps = "fold (\<lambda>prop. AList.update prop (member (JObj P) prop)) (map fst P)
              (fold (\<lambda>ep ps. if \<not> js_in ep P then AList.delete ep ps else ps) (map fst C) C)"
  have "get_props isNode i (updateProperties i P isNode gr) = Some ?ps"
    by (simp add: updateProperties_props assms)
  moreover have "map_of ?ps k
                    = (if k \<in> fst ` set P then map_of P k
                       else if k \<in> set object_prototype_keys then map_of C k else None)" for k
  proof -
    have "map_of ?ps k
          = (if k \<in> set (map fst P) then Some (member (JObj P) k)
             else if k \<in> set (map fst C) \<and> \<not> js_in k P then None else map_of C k)"
      by (simp only: map_of_save_loop map_of_drop_loop)
    then show ?thesis
      using member_own [of k P]
      by (auto simp add: js_in_def map_of_eq_None_iff)
  qed
  ultimately show ?thesis by blast
qed

text \<open>
  C1, evaluated at a vertex whose current properties are \<^verbatim>\<open>constructor\<close> and \<^verbatim>\<open>colour\<close>, with
  the desired mapping \<^verbatim>\<open>{name: "F40"}\<close>. \<^verbatim>\<open>colour\<close> is removed and \<^verbatim>\<open>name\<close> is set, but
  \<^verbatim>\<open>"constructor" in props\<close> is true of every plain object, so the property \<^verbatim>\<open>constructor\<close>,
  which is in the current mapping and not in the desired one, is not removed: the vertex ends
  with two properties, not with exactly the desired one.
\<close>

theorem updateProperties_keeps_inherited_key:
  "vertices (updateProperties ''v1'' [(''name'', JStr ''F40'')] True example_graph) ''v1''
   = Some \<lparr>v_label = ''car'',
            v_props = [(''constructor'', JStr ''Ferrari''), (''name'', JStr ''F40'')]\<rparr>"
  by (simp add: updateProperties_def valueMap_toList_def example_graph_def index0_def js_in_def
        object_prototype_keys_def properties_drop_def property_single_def map_props_def)

section \<open>Deleting\<close>

lemma deleteNode_body_absent:
  "vertices gr i = None \<Longrightarrow> V_drop i (V_outE_drop i (V_inE_drop i gr)) = gr"
  by (simp add: V_drop_def V_outE_drop_def V_inE_drop_def)

lemma deleteNode_body_removes:
  "vertices (V_drop i (V_outE_drop i (V_inE_drop i gr))) i = None"
  by (simp add: V_drop_def V_outE_drop_def V_inE_drop_def)

lemma deleteNode_body_idem:
  "V_drop i (V_outE_drop i (V_inE_drop i (V_drop i (V_outE_drop i (V_inE_drop i gr)))))
   = V_drop i (V_outE_drop i (V_inE_drop i gr))"
  by (rule deleteNode_body_absent) (rule deleteNode_body_removes)

lemma E_drop_idem: "E_drop i (E_drop i gr) = E_drop i gr"
  by (simp add: E_drop_def)

lemma deleteNode_eq:
  "deleteNode i st
   = (Resolved (),
      st\<lparr>g_handle := connection st, world := V_drop i (V_outE_drop i (V_inE_drop i (world st))),
         trace := trace st @ [Invoke (connection st)]\<rparr>)"
  unfolding deleteNode_def by (rule query_resolves) (simp add: deleteNode_body_def)

lemma deleteEdge_eq:
  "deleteEdge i st
   = (Resolved (),
      st\<lparr>g_handle := connection st, world := E_drop i (world st),
         trace := trace st @ [Invoke (connection st)]\<rparr>)"
  unfolding deleteEdge_def by (rule query_resolves) (simp add: deleteEdge_body_def)

text \<open>
  C9. For every identifier and every state of the connection and the graph, whether or not an
  element with that identifier exists, \<open>deleteNode\<close> resolves, a second \<open>deleteNode\<close> right
  after it resolves too and leaves the graph as the first one left it; likewise \<open>deleteEdge\<close>.
\<close>

theorem delete_succeeds_and_is_idempotent:
  "fst (deleteNode i st) = Resolved ()
   \<and> fst (deleteNode i (snd (deleteNode i st))) = Resolved ()
   \<and> world (snd (deleteNode i (snd (deleteNode i st)))) = world (snd (deleteNode i st))
   \<and> fst (deleteEdge i st) = Resolved ()
   \<and> fst (deleteEdge i (snd (deleteEdge i st))) = Resolved ()
   \<and> world (snd (deleteEdge i (snd (deleteEdge i st)))) = world (snd (deleteEdge i st))"
  by (simp add: deleteNode_eq deleteEdge_eq deleteNode_body_idem E_drop_idem)

theorem delete_succeeds_and_is_idempotent_witness:
  "vertices example_graph ''ghost'' = None
   \<and> fst (deleteNode ''ghost'' (example_connection example_graph)) = Resolved ()
   \<and> fst (deleteNode ''ghost'' (snd (deleteNode ''ghost'' (example_connection example_graph))))
       = Resolved ()
   \<and> world (snd (deleteNode ''ghost'' (snd (deleteNode ''ghost''
                                             (example_connection example_graph)))))
       = world (snd (deleteNode ''ghost'' (example_connection example_graph)))
   \<and> fst (deleteEdge ''ghost'' (example_connection example_graph)) = Resolved ()
   \<and> fst (deleteEdge ''ghost'' (snd (deleteEdge ''ghost'' (example_connection example_graph))))
       = Resolved ()
   \<and> world (snd (deleteEdge ''ghost'' (snd (deleteEdge ''ghost''
                                             (example_connection example_graph)))))
       = world (snd (deleteEdge ''ghost'' (example_connection example_graph)))"
  using delete_succeeds_and_is_idempotent [of "''ghost''" "example_connection example_graph"]
  by (simp add: example_graph_def)

section \<open>Saving an edge\<close>

lemma map_props_edge_fields:
  assumes "\<exists>ps. edges gr i = Some (e\<lparr>el_props := ps\<rparr>)"
  shows "\<exists>ps. edges (map_props False i h gr) i = Some (e\<lparr>el_props := ps\<rparr>)"
  using assms by (auto simp add: map_props_def)

lemma updateProperties_edge_fields:
  assumes "edges gr i = Some e"
  shows "\<exists>ps. edges (updateProperties i P False gr) i = Some (e\<lparr>el_props := ps\<rparr>)"
proof -
  let ?Q = "\<lambda>gr'. \<exists>ps. edges gr' i = Some (e\<lparr>el_props := ps\<rparr>)"
  have start: "?Q gr"
    using assms by (intro exI [of _ "el_props e"]) simp
  have drops: "?Q (fold (\<lambda>ep gr'. if \<not> js_in ep P then properties_drop False i ep gr' else gr')
                     ks gr)" for ks
    by (rule fold_invariant [where Q = "\<lambda>_. True"])
       (use start in \<open>auto simp add: properties_drop_def intro: map_props_edge_fields\<close>)
  have "?Q (fold (\<lambda>prop gr'. property_edge i prop (member (JObj P) prop) gr') ks2
             (fold (\<lambda>ep gr'. if \<not> js_in ep P then properties_drop False i ep gr' else gr')
                     ks gr))" for ks ks2
    by (rule fold_invariant [where Q = "\<lambda>_. True"])
       (use drops [of ks] in \<open>auto simp add: property_edge_def intro: map_props_edge_fields\<close>)
  then show ?thesis
    by (simp add: updateProperties_def Let_def)
qed

lemma saveEdge_eq:
  "saveEdge edge st
   = (Resolved (),
      st\<lparr>g_handle := connection st, world := snd (saveEdge_body edge (connection st) (world st)),
         trace := trace st @ [Invoke (connection st)]\<rparr>)"
  unfolding saveEdge_def
  by (rule query_resolves) (simp add: saveEdge_body_def Let_def split: option.splits)

text \<open>
  C5, as stated, at the example graph, where \<^verbatim>\<open>v1\<close> (a car) and \<^verbatim>\<open>v2\<close> (a person) exist
  and there is no edge: saving \<^verbatim>\<open>{id: "e1", label: "owns", from: "v2", to: "v1"}\<close> creates
  the edge \<^verbatim>\<open>e1\<close> with out-vertex \<^verbatim>\<open>v1\<close> and in-vertex \<^verbatim>\<open>v2\<close>. In the graph it is directed
  from \<^verbatim>\<open>edge.to\<close> to \<^verbatim>\<open>edge.from\<close>, not from \<^verbatim>\<open>edge.from\<close> to \<^verbatim>\<open>edge.to\<close>. And saving
  the same edge value with \<^verbatim>\<open>to: "v9"\<close>, a vertex that does not exist, resolves and creates no
  edge.
\<close>

theorem saveEdge_direction_counterexample:
  "fst (saveEdge example_edge (example_connection example_graph)) = Resolved ()
   \<and> edge_from example_edge = ''v2'' \<and> edge_to example_edge = ''v1''
   \<and> edges (world (snd (saveEdge example_edge (example_connection example_graph)))) ''e1''
       = Some \<lparr>el_label = ''owns'', outV = ''v1'', inV = ''v2'',
                el_props = [(''since'', JNum 2020)]\<rparr>
   \<and> fst (saveEdge (example_edge\<lparr>edge_to := ''v9''\<rparr>) (example_connection example_graph))
       = Resolved ()
   \<and> edges (world (snd (saveEdge (example_edge\<lparr>edge_to := ''v9''\<rparr>)
                               (example_connection example_graph)))) ''e1''
       = None"
  by (simp add: saveEdge_eq saveEdge_body_def example_connection_eq example_graph_def
        example_edge_def addE_from_def updateProperties_def valueMap_toList_def index0_def
        property_edge_def map_props_def)

text \<open>
  C5, amended. For every edge value whose identifier is not found by the existence lookup and
  whose two endpoint vertices exist, \<open>saveEdge\<close> resolves and has created an edge with
  identifier \<^verbatim>\<open>edge.id\<close> and label \<^verbatim>\<open>edge.label\<close> whose out-vertex is \<^verbatim>\<open>edge.to\<close> and whose
  in-vertex is \<^verbatim>\<open>edge.from\<close> (in the graph it is directed from \<^verbatim>\<open>edge.to\<close> to
  \<^verbatim>\<open>edge.from\<close>; \<open>edge_fields\<close> reads \<^verbatim>\<open>IN\<close> as \<^verbatim>\<open>from\<close> and \<^verbatim>\<open>OUT\<close> as \<^verbatim>\<open>to\<close>), and
  the reconciliation with edge semantics has left it with exactly the properties of
  \<^verbatim>\<open>edge.properties\<close>.
\<close>

theorem saveEdge_creates:
  assumes "edges (world st) (edge_id edge) = None"
    and "vertices (world st) (edge_from edge) \<noteq> None"
    and "vertices (world st) (edge_to edge) \<noteq> None"
  shows "\<exists>st' ps. saveEdge edge st = (Resolved (), st')
           \<and> edges (world st') (edge_id edge)
               = Some \<lparr>el_label = edge_label edge, outV = edge_to edge, inV = edge_from edge,
                       el_props = ps\<rparr>
           \<and> map_of ps = map_of (edge_properties edge)"
proof -
  let ?gr1 = "addE_from (edge_to edge) (edge_from edge) (edge_label edge) (edge_id edge) (world st)"
  let ?gr2 = "updateProperties (edge_id edge) (edge_properties edge) False ?gr1"
  have new: "edges ?gr1 (edge_id edge)
             = Some \<lparr>el_label = edge_label edge, outV = edge_to edge, inV = edge_from edge,
                     el_props = []\<rparr>"
    using assms(2,3) by (auto simp add: addE_from_def)
  then have "get_props False (edge_id edge) ?gr1 = Some []"
    by (simp add: get_props_def)
  from updateProperties_map_of [OF this, of "edge_properties edge"]
  obtain ps where ps: "get_props False (edge_id edge) ?gr2 = Some ps"
    and m: "\<forall>k. map_of ps k = (if k \<in> fst ` set (edge_properties edge)
                                then map_of (edge_properties edge) k else None)"
    by auto
  have "map_of ps = map_of (edge_properties edge)"
  proof
    fix k
    show "map_of ps k = map_of (edge_properties edge) k"
      using m map_of_eq_None_iff [of "edge_properties edge" k] by auto
  qed
  moreover have "edges ?gr2 (edge_id edge)
             = Some \<lparr>el_label = edge_label edge, outV = edge_to edge, inV = edge_from edge,
                     el_props = ps\<rparr>"
    using updateProperties_edge_fields [OF new, of "edge_properties edge"] ps
    by (auto simp add: get_props_def)
  moreover have "snd (saveEdge_body edge (connection st) (world st)) = ?gr2"
    using assms(1) by (simp add: saveEdge_body_def Let_def)
  ultimately show ?thesis
    by (simp add: saveEdge_eq)
qed

theorem saveEdge_creates_witness:
  "edges (world (example_connection example_graph)) (edge_id example_edge) = None
   \<and> vertices (world (example_connection example_graph)) (edge_from example_edge) \<noteq> None
   \<and> vertices (world (example_connection example_graph)) (edge_to example_edge) \<noteq> None
   \<and> (\<exists>st' ps. saveEdge example_edge (example_connection example_graph) = (Resolved (), st')
          \<and> edges (world st') ''e1''
              = Some \<lparr>el_label = ''owns'', outV = ''v1'', inV = ''v2'', el_props = ps\<rparr>
          \<and> map_of ps = map_of [(''since'', JNum 2020)])"
  using saveEdge_creates [of "example_connection example_graph" example_edge]
  by (simp add: example_connection_eq example_graph_def example_edge_def)

section \<open>Search extraction\<close>


lemma member_Some: "map_of n p = Some v \<Longrightarrow> member (JObj n) p = v"
  by simp




text \<open>
  On identifiers that are neither arrays nor objects (strings, as in Neptune, or numbers),
  \<^verbatim>\<open>===\<close> is equality of values, so "strictly equal to the identifier of some node" is
  "occurs among the identifiers of the nodes".
\<close>

lemma strict_equals_primitive:
  "\<not> isArray a \<Longrightarrow> (\<forall>kvs. a \<noteq> JObj kvs) \<Longrightarrow> strict_equals a b = (a = b)"
  by (cases a) simp_all

lemma nodeExists_primitive:
  "(\<forall>n\<in>set nodes. \<not> isArray (sn_id n) \<and> (\<forall>kvs. sn_id n \<noteq> JObj kvs)) \<Longrightarrow>
   nodeExists nodes i = (i \<in> sn_id ` set nodes)"
  by (induction nodes) (auto simp add: strict_equals_primitive)






section \<open>Further properties of the executor and of saving\<close>

text \<open>
  A query function that succeeds on its first invocation is invoked once, with the handle of the
  instance's current connection; the executor sets no timer and resolves with the function's
  result (lines 115-159).
\<close>

theorem query_first_success:
  assumes "f (connection st) (world st) = (Inr r, w')"
  shows "query f st
         = (Resolved r,
            st\<lparr>g_handle := connection st, world := w',
               trace := trace st @ [Invoke (connection st)]\<rparr>)"
  using assms by (rule query_resolves)

theorem query_first_success_witness:
  "query (\<lambda>h w. (Inr (Suc w), w)) (example_connection (41::nat))
   = (Resolved 42,
      (example_connection 41)\<lparr>g_handle := Some 0,
        trace := [Open 0 No_headers, Invoke (Some 0)]\<rparr>)"
  using query_first_success [of "\<lambda>h w. (Inr (Suc w), w)" "example_connection (41::nat)" 42 41]
  by (simp add: example_connection_eq)

text \<open>
  A conflict or a read-only violation on the first invocation, followed by a success: the
  executor waits 1000 ms once, invokes the query function a second time with the same handle
  and resolves with its result; the caller does not see the error (lines 121-158).
\<close>

theorem query_retries_then_succeeds:
  assumes "f (connection st) (world st) = (Inl e, w1)"
    and "\<not> prefix ''WebSocket is not open'' (message e)"
    and "sublist ''ConcurrentModificationException'' (message e)
         \<or> sublist ''ReadOnlyViolationException'' (message e)"
    and "f (connection st) w1 = (Inr r, w2)"
  shows "query f st
         = (Resolved r,
            st\<lparr>g_handle := connection st, world := w2,
               trace := trace st @ [Invoke (connection st), Wait 1000, Invoke (connection st)]\<rparr>)"
proof -
  let ?h = "connection st"
  let ?go = "retryAttempt 5 1000 errorFilter setTimeout (task f)"
  let ?S = "\<lambda>w t. st\<lparr>g_handle := ?h, world := w, trace := t\<rparr>"
  let ?s1 = "?S w1 (trace st @ [Invoke ?h, Wait 1000])"
  have "query f st = ?go 1 (?S (world st) (trace st))"
    by (simp add: query_def)
  also have "\<dots> = ?go 2 ?s1"
    by (rule retry_step [where f = f and h = "connection st" and w = "world st", OF assms(1)])
       (simp_all add: assms(2,3))
  also have "\<dots> = (Resolved r, ?s1\<lparr>world := w2, trace := trace ?s1 @ [Invoke (g_handle ?s1)]\<rparr>)"
    by (rule retry_resolved) (simp add: task_def assms(4))
  finally show ?thesis by simp
qed

theorem query_retries_then_succeeds_witness:
  "query fails_once (example_connection 0)
   = (Resolved ''done'',
      (example_connection 0)\<lparr>g_handle := Some 0, world := 2,
        trace := [Open 0 No_headers, Invoke (Some 0), Wait 1000, Invoke (Some 0)]\<rparr>)"
  using query_retries_then_succeeds
          [of fails_once "example_connection 0" "Error ''ConcurrentModificationException''" 1
              "''done''" 2]
  by (simp add: fails_once_def example_connection_eq sublist_code)

text \<open>
  Reconciliation on an existing element none of whose current keys outside the desired mapping
  is a name inherited from \<^verbatim>\<open>Object.prototype\<close>: afterwards the element's property mapping is
  exactly the desired one, for a vertex and for an edge alike (lines 402-435).
\<close>

theorem updateProperties_exact:
  assumes "get_props isNode i gr = Some C"
    and "\<forall>k\<in>fst ` set C. k \<in> set object_prototype_keys \<longrightarrow> k \<in> fst ` set P"
  shows "\<exists>ps. get_props isNode i (updateProperties i P isNode gr) = Some ps
           \<and> map_of ps = map_of P"
proof -
  from updateProperties_map_of [OF assms(1), of P]
  obtain ps where ps: "get_props isNode i (updateProperties i P isNode gr) = Some ps"
    and m: "\<forall>k. map_of ps k
                  = (if k \<in> fst ` set P then map_of P k
                     else if k \<in> set object_prototype_keys then map_of C k else None)"
    by blast
  have "map_of ps k = map_of P k" for k
  proof (cases "k \<in> fst ` set P")
    case True
    with m show ?thesis by simp
  next
    case False
    then have p: "map_of P k = None" by (simp add: map_of_eq_None_iff)
    from False assms(2) have "k \<in> set object_prototype_keys \<Longrightarrow> k \<notin> fst ` set C"
      by blast
    then have "k \<in> set object_prototype_keys \<Longrightarrow> map_of C k = None"
      by (simp add: map_of_eq_None_iff)
    with m False p show ?thesis by auto
  qed
  then have "map_of ps = map_of P" by (rule ext)
  with ps show ?thesis by blast
qed

theorem updateProperties_exact_witness:
  "get_props True ''v2'' example_graph = Some [(''name'', JStr ''Eric'')]
   \<and> (\<forall>k\<in>fst ` set [(''name'', JStr ''Eric'')].
         k \<in> set object_prototype_keys \<longrightarrow> k \<in> fst ` set [(''age'', JNum 40)])
   \<and> (\<exists>ps. get_props True ''v2'' (updateProperties ''v2'' [(''age'', JNum 40)] True example_graph)
             = Some ps
          \<and> map_of ps = map_of [(''age'', JNum 40)])"
proof -
  have a: "get_props True ''v2'' example_graph = Some [(''name'', JStr ''Eric'')]"
    by (simp add: get_props_def example_graph_def)
  have b: "\<forall>k\<in>fst ` set [(''name'', JStr ''Eric'')].
         k \<in> set object_prototype_keys \<longrightarrow> k \<in> fst ` set [(''age'', JNum 40)]"
    by (simp add: object_prototype_keys_def)
  from updateProperties_exact [OF a b] a b show ?thesis by blast
qed

end
